theory Spec2Isabelle
  imports Main "HOL-Library.Multiset" "HOL-Library.Char_ord" "HOL-Library.List_Lexorder"
begin

section \<open>Upstream services as values\<close>

text \<open>
  The functions of \<^verbatim>\<open>genome-api.ts\<close> are asynchronous: each awaits \<^verbatim>\<open>fetch(url)\<close> and
  then \<^verbatim>\<open>response.json()\<close>. The network is a parameter \<open>fetch\<close> of the model, a function
  from the URL to what the awaited call produces. A rejected promise, a thrown
  \<^verbatim>\<open>Error\<close> and a \<^verbatim>\<open>TypeError\<close> on reading a property of \<^verbatim>\<open>null\<close> are values of
  \<open>js_error\<close>; the result of an \<^verbatim>\<open>async\<close> function is \<open>js_error + 'a\<close>, with \<open>Inl\<close> the
  rejection.

  Genomic coordinates, sizes and timestamps are JavaScript numbers holding integers far
  below \<open>2 ^ 53\<close>; they are modelled as \<open>int\<close>. The JSON bodies are typed by the fields
  the code reads; an absent field is \<open>None\<close>.
\<close>

datatype js_error = NetworkError | SyntaxError | TypeError | Error string

datatype 'a json_body = JsonRejects | JsonNull | JsonObject 'a

record 'a response =
  ok :: bool
  statusText :: string
  json :: "'a json_body"

datatype 'a fetched = FetchRejects | Resolves "'a response"

text \<open>\<^verbatim>\<open>await response.json()\<close> followed by a property read on the parsed value.\<close>

definition await_json :: "'a response \<Rightarrow> js_error + 'a" where
  "await_json r =
     (case json r of
        JsonRejects \<Rightarrow> Inl SyntaxError
      | JsonNull \<Rightarrow> Inl TypeError
      | JsonObject d \<Rightarrow> Inr d)"

section \<open>Numbers that may be \<^verbatim>\<open>NaN\<close>\<close>

text \<open>
  The catalog's records are not validated: a position of a genomic-info record may be
  absent, and arithmetic on \<^verbatim>\<open>undefined\<close> gives \<^verbatim>\<open>NaN\<close>. The numbers computed from
  such fields are integers or \<^verbatim>\<open>NaN\<close>. \<^verbatim>\<open>Math.min\<close>, \<^verbatim>\<open>Math.max\<close>, \<^verbatim>\<open>-\<close> and \<^verbatim>\<open>+\<close>
  give \<^verbatim>\<open>NaN\<close> when an operand is \<^verbatim>\<open>NaN\<close>; every comparison with \<^verbatim>\<open>NaN\<close>,
  \<^verbatim>\<open>===\<close> included, is false.
\<close>

datatype js_number = Integer int | NaN

definition ToNumber :: "int option \<Rightarrow> js_number" where
  "ToNumber v = (case v of None \<Rightarrow> NaN | Some n \<Rightarrow> Integer n)"

fun Math_min :: "js_number \<Rightarrow> js_number \<Rightarrow> js_number" where
  "Math_min (Integer a) (Integer b) = Integer (min a b)"
| "Math_min _ _ = NaN"

fun Math_max :: "js_number \<Rightarrow> js_number \<Rightarrow> js_number" where
  "Math_max (Integer a) (Integer b) = Integer (max a b)"
| "Math_max _ _ = NaN"

fun num_minus :: "js_number \<Rightarrow> js_number \<Rightarrow> js_number" where
  "num_minus (Integer a) (Integer b) = Integer (a - b)"
| "num_minus _ _ = NaN"

fun num_plus :: "js_number \<Rightarrow> js_number \<Rightarrow> js_number" where
  "num_plus (Integer a) (Integer b) = Integer (a + b)"
| "num_plus _ _ = NaN"

fun num_greater :: "js_number \<Rightarrow> js_number \<Rightarrow> bool" where
  "num_greater (Integer a) (Integer b) = (a > b)"
| "num_greater _ _ = False"

fun num_le :: "js_number \<Rightarrow> js_number \<Rightarrow> bool" where
  "num_le (Integer a) (Integer b) = (a \<le> b)"
| "num_le _ _ = False"

fun num_eq :: "js_number \<Rightarrow> js_number \<Rightarrow> bool" where
  "num_eq (Integer a) (Integer b) = (a = b)"
| "num_eq _ _ = False"

section \<open>Coordinate resolver: \<^verbatim>\<open>fetchGeneDetails\<close>\<close>

text \<open>
  A genomic-info record as the code reads it: \<^verbatim>\<open>chrstart\<close> and \<^verbatim>\<open>chrstop\<close> are JSON
  integers, or absent.
\<close>

record genomic_info =
  chrstart :: "int option"
  chrstop :: "int option"

record gene_detail =
  genomicinfo :: "genomic_info list option"
  summary :: "string option"

record detail_data =
  result :: "(string \<rightharpoonup> gene_detail) option"

record GeneBounds =
  bounds_max :: js_number
  bounds_min :: js_number

text \<open>
  An object \<^verbatim>\<open>{start, end}\<close>. The initial range holds computed numbers; the sequence
  fetcher is given an interval of integers.
\<close>

record 'n pos_range =
  range_start :: 'n
  range_end :: 'n

record details_result =
  geneDetails :: "gene_detail option"
  geneBounds :: "GeneBounds option"
  initialRange :: "js_number pos_range option"

definition null_details :: details_result where
  "null_details = \<lparr>geneDetails = None, geneBounds = None, initialRange = None\<rparr>"

definition detailUrl :: "string \<Rightarrow> string" where
  "detailUrl geneId =
     ''https://eutils.ncbi.nlm.nih.gov/entrez/eutils/esummary.fcgi?db=gene&id='' @ geneId
       @ ''&retmode=json''"

text \<open>The bounds and the initial range computed from the first genomic-info record.\<close>

definition details_of_info :: "gene_detail \<Rightarrow> genomic_info \<Rightarrow> details_result" where
  "details_of_info detail info =
     (let minPos = Math_min (ToNumber (chrstart info)) (ToNumber (chrstop info));
          maxPos = Math_max (ToNumber (chrstart info)) (ToNumber (chrstop info));
          bounds = \<lparr>bounds_max = maxPos, bounds_min = minPos\<rparr>;
          geneSize = num_minus maxPos minPos;
          seqStart = minPos;
          seqEnd = (if num_greater geneSize (Integer 10000)
                    then num_plus minPos (Integer 10000) else maxPos);
          range = \<lparr>range_start = seqStart, range_end = seqEnd\<rparr>
      in \<lparr>geneDetails = Some detail, geneBounds = Some bounds, initialRange = Some range\<rparr>)"

text \<open>
  The body of the \<^verbatim>\<open>try\<close> block. The write to \<^verbatim>\<open>console.error\<close> on a response that is
  not ok is no part of the returned value and is left out.
\<close>

definition fetchGeneDetails_try ::
  "(string \<Rightarrow> detail_data fetched) \<Rightarrow> string \<Rightarrow> js_error + details_result" where
  "fetchGeneDetails_try fetch geneId =
     (case fetch (detailUrl geneId) of
        FetchRejects \<Rightarrow> Inl NetworkError
      | Resolves detailsResponse \<Rightarrow>
          if \<not> ok detailsResponse then Inr null_details
          else
            (case await_json detailsResponse of
               Inl e \<Rightarrow> Inl e
             | Inr detailData \<Rightarrow>
                 (case result detailData of
                    None \<Rightarrow> Inr null_details
                  | Some res \<Rightarrow>
                      (case res geneId of
                         None \<Rightarrow> Inr null_details
                       | Some detail \<Rightarrow>
                           (case genomicinfo detail of
                              None \<Rightarrow> Inr null_details
                            | Some [] \<Rightarrow> Inr null_details
                            | Some (info # _) \<Rightarrow> Inr (details_of_info detail info))))))"

text \<open>The \<^verbatim>\<open>catch\<close> clause turns every exception of the body into the all-null result.\<close>

definition fetchGeneDetails ::
  "(string \<Rightarrow> detail_data fetched) \<Rightarrow> string \<Rightarrow> js_error + details_result" where
  "fetchGeneDetails fetch geneId =
     (case fetchGeneDetails_try fetch geneId of
        Inl err \<Rightarrow> Inr null_details
      | Inr r \<Rightarrow> Inr r)"

section \<open>Sequence window fetcher: \<^verbatim>\<open>fetchGeneSequence\<close>\<close>

text \<open>\<^verbatim>\<open>s.startsWith(pat)\<close> on strings.\<close>

fun startsWith :: "string \<Rightarrow> string \<Rightarrow> bool" where
  "startsWith s [] = True"
| "startsWith [] (p # ps) = False"
| "startsWith (c # cs) (p # ps) = (c = p \<and> startsWith cs ps)"

text \<open>
  A number in a template literal: the decimal digits of an integer, with a minus sign
  when it is negative.
\<close>

fun digits_of_nat :: "nat \<Rightarrow> string" where
  "digits_of_nat n =
     (if n < 10 then [char_of (48 + n)]
      else digits_of_nat (n div 10) @ [char_of (48 + n mod 10)])"

declare digits_of_nat.simps [simp del]

definition number_to_string :: "int \<Rightarrow> string" where
  "number_to_string i =
     (if i < 0 then CHR ''-'' # digits_of_nat (nat (- i)) else digits_of_nat (nat i))"

text \<open>
  \<^verbatim>\<open>toUpperCase\<close> on ASCII strings, which is what the sequence service sends: a
  lower-case letter becomes its upper-case one, every other character stays. Outside
  ASCII the JavaScript function changes other letters too and may change the length;
  what is proved below about the upper-cased sequence is stated for ASCII strings.
\<close>

definition upper_char :: "char \<Rightarrow> char" where
  "upper_char c =
     (if CHR ''a'' \<le> c \<and> c \<le> CHR ''z'' then char_of (of_char c - (32::nat)) else c)"

definition toUpperCase :: "string \<Rightarrow> string" where
  "toUpperCase s = map upper_char s"

text \<open>Truthiness of an optional string field: absent and the empty string are falsy.\<close>

definition truthy :: "string option \<Rightarrow> bool" where
  "truthy v = (case v of None \<Rightarrow> False | Some s \<Rightarrow> s \<noteq> [])"

record sequence_data =
  data_dna :: "string option"
  data_error :: "string option"

record sequence_result =
  sequence :: string
  actualRange :: "int pos_range"
  error :: "string option"

definition chromosome_of :: "string \<Rightarrow> string" where
  "chromosome_of chrom = (if startsWith chrom ''chr'' then chrom else ''chr'' @ chrom)"

definition apiStart :: "int \<Rightarrow> int" where
  "apiStart start = start - 1"

definition apiEnd :: "int \<Rightarrow> int" where
  "apiEnd end' = end'"

definition apiUrl :: "string \<Rightarrow> string \<Rightarrow> int \<Rightarrow> int \<Rightarrow> string" where
  "apiUrl genomeId chromosome api_start api_end =
     ''https://api.genome.ucsc.edu/getData/sequence?genome='' @ genomeId
       @ '';chrom='' @ chromosome
       @ '';start='' @ number_to_string api_start
       @ '';end='' @ number_to_string api_end"

text \<open>The URL that \<^verbatim>\<open>fetchGeneSequence\<close> passes to \<^verbatim>\<open>fetch\<close>.\<close>

definition sequence_query :: "string \<Rightarrow> int \<Rightarrow> int \<Rightarrow> string \<Rightarrow> string" where
  "sequence_query chrom start end' genomeId =
     apiUrl genomeId (chromosome_of chrom) (apiStart start) (apiEnd end')"

text \<open>
  Issuing \<^verbatim>\<open>fetch(url)\<close>: the answer of the service, and the request that went out.
\<close>

definition issue :: "(string \<Rightarrow> 'a fetched) \<Rightarrow> string \<Rightarrow> 'a fetched \<times> string list" where
  "issue fetch url = (fetch url, [url])"

text \<open>
  The body of the \<^verbatim>\<open>try\<close> block: its outcome and the requests it has issued. The
  response's \<^verbatim>\<open>ok\<close> flag is not read.
\<close>

definition fetchGeneSequence_try ::
  "(string \<Rightarrow> sequence_data fetched) \<Rightarrow> string \<Rightarrow> int \<Rightarrow> int \<Rightarrow> string
     \<Rightarrow> (js_error + sequence_result) \<times> string list" where
  "fetchGeneSequence_try fetch chrom start end' genomeId =
     (case issue fetch (sequence_query chrom start end' genomeId) of
        (answer, requests) \<Rightarrow>
          ((case answer of
              FetchRejects \<Rightarrow> Inl NetworkError
            | Resolves response \<Rightarrow>
                (case await_json response of
                   Inl e \<Rightarrow> Inl e
                 | Inr data \<Rightarrow>
                     (let range = \<lparr>range_start = start, range_end = end'\<rparr> in
                      if truthy (data_error data) \<or> \<not> truthy (data_dna data)
                      then Inr \<lparr>sequence = [], actualRange = range,
                                error = data_error data\<rparr>
                      else
                        (case data_dna data of
                           None \<Rightarrow> Inl TypeError
                         | Some dna \<Rightarrow>
                             Inr \<lparr>sequence = toUpperCase dna, actualRange = range,
                                  error = None\<rparr>)))),
           requests))"

text \<open>
  The whole function, with its \<^verbatim>\<open>catch\<close> clause: what the returned promise settles
  to, and the requests issued on the way.
\<close>

definition fetchGeneSequence_run ::
  "(string \<Rightarrow> sequence_data fetched) \<Rightarrow> string \<Rightarrow> int \<Rightarrow> int \<Rightarrow> string
     \<Rightarrow> (js_error + sequence_result) \<times> string list" where
  "fetchGeneSequence_run fetch chrom start end' genomeId =
     (case fetchGeneSequence_try fetch chrom start end' genomeId of
        (Inl err, requests) \<Rightarrow>
          (Inr \<lparr>sequence = [],
                actualRange = \<lparr>range_start = start, range_end = end'\<rparr>,
                error = Some ''Internal error in fetch gene sequence''\<rparr>,
           requests)
      | (Inr r, requests) \<Rightarrow> (Inr r, requests))"

definition fetchGeneSequence ::
  "(string \<Rightarrow> sequence_data fetched) \<Rightarrow> string \<Rightarrow> int \<Rightarrow> int \<Rightarrow> string
     \<Rightarrow> js_error + sequence_result" where
  "fetchGeneSequence fetch chrom start end' genomeId =
     fst (fetchGeneSequence_run fetch chrom start end' genomeId)"

definition fetchGeneSequence_requests ::
  "(string \<Rightarrow> sequence_data fetched) \<Rightarrow> string \<Rightarrow> int \<Rightarrow> int \<Rightarrow> string \<Rightarrow> string list" where
  "fetchGeneSequence_requests fetch chrom start end' genomeId =
     snd (fetchGeneSequence_run fetch chrom start end' genomeId)"

section \<open>Result cache: \<^verbatim>\<open>getCachedData\<close> and \<^verbatim>\<open>setCachedData\<close>\<close>

text \<open>
  \<^verbatim>\<open>localStorage\<close> maps keys to strings. A stored string is modelled by what
  \<^verbatim>\<open>getCachedData\<close> makes of it: the empty string (falsy), a string that
  \<^verbatim>\<open>JSON.parse\<close> rejects or that has no numeric timestamp, or the serialisation of an
  entry \<^verbatim>\<open>{data, timestamp}\<close>. The cached data are arrays of search results, which
  \<^verbatim>\<open>JSON.stringify\<close> and \<^verbatim>\<open>JSON.parse\<close> give back unchanged. \<^verbatim>\<open>Date.now()\<close> is the
  parameter \<open>now\<close>, in milliseconds.
\<close>

datatype 'v stored = EmptyString | Unparsable | Entry 'v int

type_synonym 'v localStorage = "string \<rightharpoonup> 'v stored"

definition CACHE_TIMEOUT :: int where
  "CACHE_TIMEOUT = 10 * 60 * 1000"

definition isCacheValid :: "int \<Rightarrow> int \<Rightarrow> bool" where
  "isCacheValid now timestamp = (now - timestamp < CACHE_TIMEOUT)"

definition removeItem :: "'v localStorage \<Rightarrow> string \<Rightarrow> 'v localStorage" where
  "removeItem store cacheKey = store(cacheKey := None)"

text \<open>The value returned (\<open>None\<close> is \<^verbatim>\<open>null\<close>) and the storage after the call.\<close>

definition getCachedData ::
  "'v localStorage \<Rightarrow> int \<Rightarrow> string \<Rightarrow> 'v option \<times> 'v localStorage" where
  "getCachedData store now cacheKey =
     (case store cacheKey of
        None \<Rightarrow> (None, store)
      | Some EmptyString \<Rightarrow> (None, store)
      | Some Unparsable \<Rightarrow> (None, removeItem store cacheKey)
      | Some (Entry data timestamp) \<Rightarrow>
          if isCacheValid now timestamp then (Some data, store)
          else (None, removeItem store cacheKey))"

text \<open>
  \<^verbatim>\<open>localStorage.setItem\<close> throws when the quota is exceeded; \<open>has_room\<close> says whether
  it accepts the write. \<^verbatim>\<open>setCachedData\<close> catches the exception and stores nothing.
\<close>

definition setItem ::
  "bool \<Rightarrow> 'v localStorage \<Rightarrow> string \<Rightarrow> 'v stored \<Rightarrow> js_error + 'v localStorage" where
  "setItem has_room store cacheKey v =
     (if has_room then Inr (store(cacheKey \<mapsto> v)) else Inl (Error ''QuotaExceededError''))"

definition setCachedData ::
  "bool \<Rightarrow> 'v localStorage \<Rightarrow> int \<Rightarrow> string \<Rightarrow> 'v \<Rightarrow> 'v localStorage" where
  "setCachedData has_room store now cacheKey data =
     (case setItem has_room store cacheKey (Entry data now) of
        Inl err \<Rightarrow> store
      | Inr store' \<Rightarrow> store')"

section \<open>Chromosome list: \<^verbatim>\<open>getGenomeChromosomes\<close>\<close>

record ChromosomeData =
  name :: string
  size_bases :: int

record chromosome_data =
  chromosomes :: "(string \<times> int) list option"

text \<open>\<^verbatim>\<open>s.includes(pat)\<close>: \<open>pat\<close> occurs in \<open>s\<close> as a substring.\<close>

fun str_includes :: "string \<Rightarrow> string \<Rightarrow> bool" where
  "str_includes [] pat = (pat = [])"
| "str_includes (c # cs) pat = (startsWith (c # cs) pat \<or> str_includes cs pat)"

text \<open>\<^verbatim>\<open>s.replace(pat, rep)\<close> with a string pattern: the first occurrence only.\<close>

fun replace_first :: "string \<Rightarrow> string \<Rightarrow> string \<Rightarrow> string" where
  "replace_first [] pat rep = (if pat = [] then rep else [])"
| "replace_first (c # cs) pat rep =
     (if startsWith (c # cs) pat then rep @ drop (length pat) (c # cs)
      else c # replace_first cs pat rep)"

text \<open>The regular expression \<^verbatim>\<open>/^\d+$/\<close>: one or more ASCII digits and nothing else.\<close>

definition is_digit :: "char \<Rightarrow> bool" where
  "is_digit c = (CHR ''0'' \<le> c \<and> c \<le> CHR ''9'')"

definition all_digits :: "string \<Rightarrow> bool" where
  "all_digits s = (s \<noteq> [] \<and> list_all is_digit s)"

text \<open>
  \<^verbatim>\<open>Number(s)\<close> on a string of digits: its decimal value (exact for the digit runs of
  chromosome names, which stay far below \<open>2 ^ 53\<close>).
\<close>

definition Number :: "string \<Rightarrow> int" where
  "Number s = foldl (\<lambda>n c. 10 * n + (int (of_char c) - 48)) 0 s"

text \<open>
  The comparator given to \<^verbatim>\<open>sort\<close>. \<^verbatim>\<open>localeCompare\<close> is the host's collation, a
  parameter of the model.
\<close>

definition chrom_compare ::
  "(string \<Rightarrow> string \<Rightarrow> int) \<Rightarrow> ChromosomeData \<Rightarrow> ChromosomeData \<Rightarrow> int" where
  "chrom_compare localeCompare a b =
     (let anum = replace_first (name a) ''chr'' [];
          isNumA = all_digits anum;
          bnum = replace_first (name b) ''chr'' [];
          isNumB = all_digits bnum
      in if isNumA \<and> isNumB then Number anum - Number bnum
         else if isNumA then - 1
         else if isNumB then 1
         else localeCompare anum bnum)"

text \<open>
  \<^verbatim>\<open>Array.prototype.sort\<close> is stable, and with a consistent comparator its result is
  the one stable sorted arrangement, whatever algorithm the engine runs. The model is
  the stable insertion sort: an element goes before the first one it does not exceed.
\<close>

fun insert_sorted :: "('a \<Rightarrow> 'a \<Rightarrow> int) \<Rightarrow> 'a \<Rightarrow> 'a list \<Rightarrow> 'a list" where
  "insert_sorted cmp x [] = [x]"
| "insert_sorted cmp x (y # ys) =
     (if cmp x y \<le> 0 then x # y # ys else y # insert_sorted cmp x ys)"

definition array_sort :: "('a \<Rightarrow> 'a \<Rightarrow> int) \<Rightarrow> 'a list \<Rightarrow> 'a list" where
  "array_sort cmp xs = foldr (insert_sorted cmp) xs []"

text \<open>
  The \<^verbatim>\<open>for ... in\<close> loop over the keys of \<^verbatim>\<open>chromosomeData.chromosomes\<close>, in the order
  the engine enumerates them.
\<close>

fun collect_chromosomes :: "(string \<times> int) list \<Rightarrow> ChromosomeData list" where
  "collect_chromosomes [] = []"
| "collect_chromosomes ((chromId, sz) # rest) =
     (if str_includes chromId ''_'' \<or> str_includes chromId ''random'' \<or> str_includes chromId ''Un''
      then collect_chromosomes rest
      else \<lparr>name = chromId, size_bases = sz\<rparr> # collect_chromosomes rest)"

definition chromosomesUrl :: "string \<Rightarrow> string" where
  "chromosomesUrl genomeId =
     ''https://api.genome.ucsc.edu/list/chromosomes?genome='' @ genomeId"

definition getGenomeChromosomes ::
  "(string \<Rightarrow> chromosome_data fetched) \<Rightarrow> (string \<Rightarrow> string \<Rightarrow> int) \<Rightarrow> string
     \<Rightarrow> js_error + ChromosomeData list" where
  "getGenomeChromosomes fetch localeCompare genomeId =
     (case fetch (chromosomesUrl genomeId) of
        FetchRejects \<Rightarrow> Inl NetworkError
      | Resolves response \<Rightarrow>
          if \<not> ok response
          then Inl (Error (''Failed to fetch chromosome list from UCSC API for genome ''
                            @ genomeId))
          else
            (case await_json response of
               Inl e \<Rightarrow> Inl e
             | Inr chromosomeData \<Rightarrow>
                 (case chromosomes chromosomeData of
                    None \<Rightarrow> Inl (Error ''UCSC API Error: missing chromosomes field'')
                  | Some entries \<Rightarrow>
                      Inr (array_sort (chrom_compare localeCompare)
                             (collect_chromosomes entries)))))"

section \<open>The display order of the specification\<close>

text \<open>
  A name is excluded when it contains an underscore, \<^verbatim>\<open>random\<close> or \<^verbatim>\<open>Un\<close>. A
  chromosome is numerically named when its name without \<^verbatim>\<open>chr\<close> is a run of digits.
  In the display order the numerically named chromosomes come first, by ascending
  number, and the others follow, ordered by the collation on their names without
  \<^verbatim>\<open>chr\<close>.
\<close>

definition excluded_name :: "string \<Rightarrow> bool" where
  "excluded_name n = (str_includes n ''_'' \<or> str_includes n ''random'' \<or> str_includes n ''Un'')"

definition numeric_name :: "ChromosomeData \<Rightarrow> bool" where
  "numeric_name c = all_digits (replace_first (name c) ''chr'' [])"

definition display_order ::
  "(string \<Rightarrow> string \<Rightarrow> int) \<Rightarrow> ChromosomeData \<Rightarrow> ChromosomeData \<Rightarrow> bool" where
  "display_order lc a b =
     (if numeric_name a
      then (if numeric_name b
            then Number (replace_first (name a) ''chr'' []) \<le> Number (replace_first (name b) ''chr'' [])
            else True)
      else (if numeric_name b then False
            else lc (replace_first (name a) ''chr'' []) (replace_first (name b) ''chr'' []) \<le> 0))"

section \<open>Sample upstream answers\<close>

text \<open>Concrete answers of the services, used to run the functions on inputs.\<close>

definition catalog_answer :: "string \<Rightarrow> genomic_info list option \<Rightarrow> string \<Rightarrow> detail_data fetched" where
  "catalog_answer geneId infos url =
     Resolves \<lparr>ok = True, statusText = ''OK'',
       json = JsonObject \<lparr>result = Some [geneId \<mapsto> \<lparr>genomicinfo = infos, summary = None\<rparr>]\<rparr>\<rparr>"

definition network_down :: "string \<Rightarrow> 'a fetched" where
  "network_down url = FetchRejects"

definition sequence_answer :: "string option \<Rightarrow> string option \<Rightarrow> string \<Rightarrow> sequence_data fetched" where
  "sequence_answer dna err url =
     Resolves \<lparr>ok = True, statusText = ''OK'',
       json = JsonObject \<lparr>data_dna = dna, data_error = err\<rparr>\<rparr>"

text \<open>A collation for running the sort: the order of the strings by character code.\<close>

definition codeunit_compare :: "string \<Rightarrow> string \<Rightarrow> int" where
  "codeunit_compare a b = (if a < b then - 1 else if a = b then 0 else 1)"

definition sample_chromosomes :: "string \<Rightarrow> chromosome_data fetched" where
  "sample_chromosomes url =
     Resolves \<lparr>ok = True, statusText = ''OK'',
       json = JsonObject \<lparr>chromosomes = Some
         [(''chr10'', 133797422), (''chrX'', 156040895), (''chr2'', 242193529),
          (''chr1_KI270706v1_random'', 175055), (''chrUn_GL000195v1'', 182896),
          (''chrM'', 16569), (''chr1'', 248956422)]\<rparr>\<rparr>"

section \<open>The coordinate resolver\<close>

lemma fetchGeneDetails_cases:
  "fetchGeneDetails fetch geneId = Inr null_details
   \<or> (\<exists>detail info rest. genomicinfo detail = Some (info # rest)
         \<and> fetchGeneDetails fetch geneId = Inr (details_of_info detail info))"
  by (auto simp: fetchGeneDetails_def fetchGeneDetails_try_def await_json_def
           split: fetched.splits json_body.splits option.splits list.splits)

lemma fetchGeneDetails_record:
  assumes "fetch (detailUrl geneId) = Resolves r" and "ok r" and "json r = JsonObject d"
    and "result d = Some res" and "res geneId = Some detail"
    and "genomicinfo detail = Some (info # rest)"
  shows "fetchGeneDetails fetch geneId = Inr (details_of_info detail info)"
  using assms by (simp add: fetchGeneDetails_def fetchGeneDetails_try_def await_json_def)

lemma details_of_info_numeric:
  assumes "chrstart info = Some a" and "chrstop info = Some b"
  shows "details_of_info detail info =
     \<lparr>geneDetails = Some detail,
      geneBounds = Some \<lparr>bounds_max = Integer (max a b), bounds_min = Integer (min a b)\<rparr>,
      initialRange = Some \<lparr>range_start = Integer (min a b),
        range_end = Integer (if max a b - min a b > 10000 then min a b + 10000 else max a b)\<rparr>\<rparr>"
  using assms by (simp add: details_of_info_def ToNumber_def Let_def)

lemma details_of_info_not_numeric:
  assumes "chrstart info = None \<or> chrstop info = None"
  shows "details_of_info detail info =
     \<lparr>geneDetails = Some detail,
      geneBounds = Some \<lparr>bounds_max = NaN, bounds_min = NaN\<rparr>,
      initialRange = Some \<lparr>range_start = NaN, range_end = NaN\<rparr>\<rparr>"
  using assms
  by (cases "chrstart info"; cases "chrstop info")
     (auto simp: details_of_info_def ToNumber_def Let_def)

text \<open>
  C1: when the catalog's answer for the gene has a first genomic-info record with
  positions \<open>a\<close> and \<open>b\<close>, and \<open>mn\<close> and \<open>mx\<close> are the smaller and the larger of the
  two, \<^verbatim>\<open>fetchGeneDetails\<close> returns the bounds \<open>mn\<close>, \<open>mx\<close> and the initial range that
  starts at \<open>mn\<close> and ends at \<open>mn + 10000\<close> when \<open>mx - mn > 10000\<close> and at \<open>mx\<close>
  otherwise. For a span of 15000 the range is \<open>[mn, mn + 10000]\<close>, for a span of 500 it
  is \<open>[mn, mx]\<close>.
\<close>

theorem initial_window_policy:
  assumes "fetch (detailUrl geneId) = Resolves r" and "ok r" and "json r = JsonObject d"
    and "result d = Some res" and "res geneId = Some detail"
    and "genomicinfo detail = Some (info # rest)"
    and "chrstart info = Some a" and "chrstop info = Some b"
    and "mn = min a b" and "mx = max a b"
  shows "\<exists>out. fetchGeneDetails fetch geneId = Inr out
      \<and> geneBounds out = Some \<lparr>bounds_max = Integer mx, bounds_min = Integer mn\<rparr>
      \<and> initialRange out =
          Some \<lparr>range_start = Integer mn,
                range_end = Integer (if mx - mn > 10000 then mn + 10000 else mx)\<rparr>
      \<and> (mx - mn = 15000 \<longrightarrow>
           initialRange out = Some \<lparr>range_start = Integer mn, range_end = Integer (mn + 10000)\<rparr>)
      \<and> (mx - mn = 500 \<longrightarrow>
           initialRange out = Some \<lparr>range_start = Integer mn, range_end = Integer mx\<rparr>)"
proof -
  have "fetchGeneDetails fetch geneId = Inr (details_of_info detail info)"
    using assms(1-6) by (rule fetchGeneDetails_record)
  then show ?thesis
    using assms(9,10) by (simp add: details_of_info_numeric [OF assms(7,8)])
qed

theorem initial_window_policy_witness:
  "(\<exists>out. fetchGeneDetails
             (catalog_answer ''672'' (Some [\<lparr>chrstart = Some 15100, chrstop = Some 100\<rparr>]))
             ''672''
            = Inr out
      \<and> geneBounds out = Some \<lparr>bounds_max = Integer 15100, bounds_min = Integer 100\<rparr>
      \<and> initialRange out = Some \<lparr>range_start = Integer 100, range_end = Integer 10100\<rparr>)
   \<and> (\<exists>out. fetchGeneDetails
             (catalog_answer ''672'' (Some [\<lparr>chrstart = Some 100, chrstop = Some 600\<rparr>]))
             ''672''
            = Inr out
      \<and> geneBounds out = Some \<lparr>bounds_max = Integer 600, bounds_min = Integer 100\<rparr>
      \<and> initialRange out = Some \<lparr>range_start = Integer 100, range_end = Integer 600\<rparr>)"
proof -
  have run: "\<exists>out. fetchGeneDetails
                (catalog_answer ''672'' (Some [\<lparr>chrstart = Some a, chrstop = Some b\<rparr>])) ''672''
               = Inr out
      \<and> geneBounds out = Some \<lparr>bounds_max = Integer (max a b), bounds_min = Integer (min a b)\<rparr>
      \<and> initialRange out =
          Some \<lparr>range_start = Integer (min a b),
                range_end = Integer (if max a b - min a b > 10000 then min a b + 10000
                                     else max a b)\<rparr>
      \<and> (max a b - min a b = 15000 \<longrightarrow>
           initialRange out =
             Some \<lparr>range_start = Integer (min a b), range_end = Integer (min a b + 10000)\<rparr>)
      \<and> (max a b - min a b = 500 \<longrightarrow>
           initialRange out =
             Some \<lparr>range_start = Integer (min a b), range_end = Integer (max a b)\<rparr>)"
    for a b
  proof -
    let ?info = "\<lparr>chrstart = Some a, chrstop = Some b\<rparr>"
    let ?detail = "\<lparr>genomicinfo = Some [?info], summary = None\<rparr>"
    let ?res = "[''672'' \<mapsto> ?detail]"
    let ?d = "\<lparr>result = Some ?res\<rparr>"
    let ?r = "\<lparr>ok = True, statusText = ''OK'', json = JsonObject ?d\<rparr>"
    have h1: "catalog_answer ''672'' (Some [?info]) (detailUrl ''672'') = Resolves ?r"
      by (simp add: catalog_answer_def)
    have h2: "ok ?r" and h3: "json ?r = JsonObject ?d" and h4: "result ?d = Some ?res"
      and h5: "?res ''672'' = Some ?detail"
      and h6: "genomicinfo ?detail = Some (?info # [])"
      and h7: "chrstart ?info = Some a" and h8: "chrstop ?info = Some b"
      and h9: "min a b = min a b" and h10: "max a b = max a b"
      by simp_all
    from initial_window_policy [where fetch = "catalog_answer ''672'' (Some [?info])"
        and res = "?res" and geneId = "''672''", OF h1 h2 h3 h4 h5 h6 h7 h8 h9 h10]
    show ?thesis .
  qed
  from run [of 15100 100] run [of 100 600] show ?thesis
    by simp
qed

text \<open>
  C5: for a genomic-info record with positions \<open>chrstart\<close> and \<open>chrstop\<close> in either
  order, the bounds returned by \<^verbatim>\<open>fetchGeneDetails\<close> are the smaller and the larger of
  the two, so that \<open>min \<le> max\<close>.
\<close>

theorem gene_bounds_min_max:
  assumes "fetch (detailUrl geneId) = Resolves r" and "ok r" and "json r = JsonObject d"
    and "result d = Some res" and "res geneId = Some detail"
    and "genomicinfo detail = Some (info # rest)"
    and "chrstart info = Some a" and "chrstop info = Some b"
  shows "\<exists>out bnds. fetchGeneDetails fetch geneId = Inr out \<and> geneBounds out = Some bnds
      \<and> bounds_min bnds = Integer (min a b)
      \<and> bounds_max bnds = Integer (max a b)
      \<and> num_le (bounds_min bnds) (bounds_max bnds)"
proof -
  have "fetchGeneDetails fetch geneId = Inr (details_of_info detail info)"
    using assms(1-6) by (rule fetchGeneDetails_record)
  then show ?thesis
    by (simp add: details_of_info_numeric [OF assms(7,8)])
qed

theorem gene_bounds_min_max_witness:
  "\<exists>out bnds. fetchGeneDetails
              (catalog_answer ''672''
                 (Some [\<lparr>chrstart = Some 43125363, chrstop = Some 43044294\<rparr>]))
              ''672'' = Inr out
      \<and> geneBounds out = Some bnds \<and> bounds_min bnds = Integer 43044294
      \<and> bounds_max bnds = Integer 43125363
      \<and> num_le (bounds_min bnds) (bounds_max bnds)"
proof -
  let ?info = "\<lparr>chrstart = Some 43125363, chrstop = Some 43044294\<rparr>"
  let ?detail = "\<lparr>genomicinfo = Some [?info], summary = None\<rparr>"
  let ?res = "[''672'' \<mapsto> ?detail]"
  let ?d = "\<lparr>result = Some ?res\<rparr>"
  let ?r = "\<lparr>ok = True, statusText = ''OK'', json = JsonObject ?d\<rparr>"
  have h1: "catalog_answer ''672'' (Some [?info]) (detailUrl ''672'') = Resolves ?r"
    by (simp add: catalog_answer_def)
  have h2: "ok ?r" and h3: "json ?r = JsonObject ?d" and h4: "result ?d = Some ?res"
    and h5: "?res ''672'' = Some ?detail"
    and h6: "genomicinfo ?detail = Some (?info # [])"
    and h7: "chrstart ?info = Some 43125363" and h8: "chrstop ?info = Some 43044294"
    by simp_all
  from gene_bounds_min_max [where fetch = "catalog_answer ''672'' (Some [?info])" and res = "?res"
      and geneId = "''672''", OF h1 h2 h3 h4 h5 h6 h7 h8]
  show ?thesis
    by simp
qed

text \<open>
  C9, as stated, asks on every input that non-null components satisfy
  \<open>min = start \<le> end \<le> max\<close>. For a first record without \<^verbatim>\<open>chrstop\<close> the three
  components are non-null, the bounds and the range are \<^verbatim>\<open>NaN\<close>, and no comparison
  of them holds.
\<close>

theorem missing_position_counterexample:
  "fetchGeneDetails
     (catalog_answer ''672'' (Some [\<lparr>chrstart = Some 100, chrstop = None\<rparr>])) ''672''
     = Inr \<lparr>geneDetails =
              Some \<lparr>genomicinfo = Some [\<lparr>chrstart = Some 100, chrstop = None\<rparr>],
                    summary = None\<rparr>,
            geneBounds = Some \<lparr>bounds_max = NaN, bounds_min = NaN\<rparr>,
            initialRange = Some \<lparr>range_start = NaN, range_end = NaN\<rparr>\<rparr>
   \<and> \<not> num_eq NaN NaN \<and> \<not> num_le NaN NaN"
  by (simp add: fetchGeneDetails_def fetchGeneDetails_try_def await_json_def
        catalog_answer_def details_of_info_def ToNumber_def Let_def)

text \<open>
  C9, amended: on every input \<^verbatim>\<open>fetchGeneDetails\<close> returns, and the three components
  of its result are all null or all present; when they are present and the first
  genomic-info record of the returned details has both positions, the initial range
  starts at the lower bound and lies inside the bounds.
\<close>

theorem details_all_or_nothing:
  "\<exists>out. fetchGeneDetails fetch geneId = Inr out
     \<and> ((geneDetails out = None \<and> geneBounds out = None \<and> initialRange out = None)
        \<or> (\<exists>d bnds r. geneDetails out = Some d \<and> geneBounds out = Some bnds
              \<and> initialRange out = Some r
              \<and> ((\<exists>info rest a b. genomicinfo d = Some (info # rest)
                      \<and> chrstart info = Some a \<and> chrstop info = Some b)
                   \<longrightarrow> num_eq (bounds_min bnds) (range_start r)
                       \<and> num_le (range_start r) (range_end r)
                       \<and> num_le (range_end r) (bounds_max bnds))))"
proof -
  consider (null) "fetchGeneDetails fetch geneId = Inr null_details"
    | (found) detail info rest where "genomicinfo detail = Some (info # rest)"
        and "fetchGeneDetails fetch geneId = Inr (details_of_info detail info)"
    using fetchGeneDetails_cases by blast
  then show ?thesis
  proof cases
    case null
    then show ?thesis by (simp add: null_details_def)
  next
    case found
    show ?thesis
    proof (cases "chrstart info = None \<or> chrstop info = None")
      case True
      with found show ?thesis
        by (auto simp: details_of_info_not_numeric)
    next
      case False
      then obtain a b where "chrstart info = Some a" and "chrstop info = Some b"
        by auto
      with found show ?thesis
        by (auto simp: details_of_info_numeric)
    qed
  qed
qed

theorem details_all_or_nothing_witness:
  "\<exists>out d bnds r. fetchGeneDetails
       (catalog_answer ''672'' (Some [\<lparr>chrstart = Some 15100, chrstop = Some 100\<rparr>])) ''672''
       = Inr out
     \<and> geneDetails out = Some d \<and> geneBounds out = Some bnds \<and> initialRange out = Some r
     \<and> num_eq (bounds_min bnds) (range_start r)
     \<and> num_le (range_start r) (range_end r)
     \<and> num_le (range_end r) (bounds_max bnds)"
proof -
  let ?fetch = "catalog_answer ''672'' (Some [\<lparr>chrstart = Some 15100, chrstop = Some 100\<rparr>])"
  have run: "fetchGeneDetails ?fetch ''672''
     = Inr \<lparr>geneDetails =
              Some \<lparr>genomicinfo = Some [\<lparr>chrstart = Some 15100, chrstop = Some 100\<rparr>],
                    summary = None\<rparr>,
            geneBounds = Some \<lparr>bounds_max = Integer 15100, bounds_min = Integer 100\<rparr>,
            initialRange = Some \<lparr>range_start = Integer 100, range_end = Integer 10100\<rparr>\<rparr>"
    by (simp add: fetchGeneDetails_def fetchGeneDetails_try_def await_json_def
          catalog_answer_def details_of_info_def ToNumber_def Let_def)
  from details_all_or_nothing [of ?fetch "''672''"] show ?thesis
    unfolding run by auto
qed

text \<open>
  C6, as stated, asks that the result for a gene without genomic-info record differ from
  the result on a network failure. Both are the all-null result.
\<close>

theorem no_data_same_as_failure_counterexample:
  "fetchGeneDetails (catalog_answer ''672'' (Some [])) ''672''
     = fetchGeneDetails network_down ''672''"
  by (simp add: fetchGeneDetails_def fetchGeneDetails_try_def await_json_def
        catalog_answer_def network_down_def)

text \<open>
  C6, amended: when the catalog's answer has no genomic-info record for the gene id,
  \<^verbatim>\<open>fetchGeneDetails\<close> returns the all-null result, and no exception is raised on the
  way; a rejected fetch or a response that is not ok gives the same all-null result.
\<close>

theorem no_record_null_result:
  assumes "fetch (detailUrl geneId) = Resolves r" and "ok r" and "json r = JsonObject d"
    and "\<forall>res detail. result d = Some res \<and> res geneId = Some detail
           \<longrightarrow> genomicinfo detail = None \<or> genomicinfo detail = Some []"
    and "failing (detailUrl geneId) = FetchRejects
         \<or> (\<exists>r'. failing (detailUrl geneId) = Resolves r' \<and> \<not> ok r')"
  shows "fetchGeneDetails fetch geneId = Inr null_details
     \<and> fetchGeneDetails_try fetch geneId = Inr null_details
     \<and> fetchGeneDetails failing geneId = Inr null_details"
proof -
  have a: "fetchGeneDetails_try fetch geneId = Inr null_details"
    using assms(1-4)
    by (auto simp: fetchGeneDetails_try_def await_json_def split: option.splits list.splits)
  then have b: "fetchGeneDetails fetch geneId = Inr null_details"
    by (simp add: fetchGeneDetails_def)
  have c: "fetchGeneDetails failing geneId = Inr null_details"
    using assms(5) by (auto simp: fetchGeneDetails_def fetchGeneDetails_try_def)
  from a b c show ?thesis by simp
qed

theorem no_record_null_result_witness:
  "fetchGeneDetails (catalog_answer ''672'' (Some [])) ''672'' = Inr null_details
     \<and> fetchGeneDetails_try (catalog_answer ''672'' (Some [])) ''672'' = Inr null_details
     \<and> fetchGeneDetails (network_down :: string \<Rightarrow> detail_data fetched) ''672'' = Inr null_details"
proof -
  let ?detail = "\<lparr>genomicinfo = Some [], summary = None\<rparr>"
  let ?d = "\<lparr>result = Some [''672'' \<mapsto> ?detail]\<rparr>"
  let ?r = "\<lparr>ok = True, statusText = ''OK'', json = JsonObject ?d\<rparr>"
  have h1: "catalog_answer ''672'' (Some []) (detailUrl ''672'') = Resolves ?r"
    by (simp add: catalog_answer_def)
  have h2: "ok ?r" and h3: "json ?r = JsonObject ?d"
    by simp_all
  have h4: "\<forall>res detail. result ?d = Some res \<and> res ''672'' = Some detail
              \<longrightarrow> genomicinfo detail = None \<or> genomicinfo detail = Some []"
    by auto
  have h5: "(network_down :: string \<Rightarrow> detail_data fetched) (detailUrl ''672'') = FetchRejects
         \<or> (\<exists>r'. (network_down :: string \<Rightarrow> detail_data fetched) (detailUrl ''672'') = Resolves r' \<and> \<not> ok r')"
    by (simp add: network_down_def)
  from no_record_null_result [where fetch = "catalog_answer ''672'' (Some [])"
      and failing = "network_down :: string \<Rightarrow> detail_data fetched"
      and geneId = "''672''", OF h1 h2 h3 h4 h5]
  show ?thesis .
qed

section \<open>The sequence window fetcher\<close>

lemma fetchGeneSequence_run_requests:
  "snd (fetchGeneSequence_run fetch chrom start end' genomeId)
     = [sequence_query chrom start end' genomeId]"
  by (simp add: fetchGeneSequence_run_def fetchGeneSequence_try_def issue_def
           split: sum.splits prod.splits)

lemma Number_snoc: "Number (s @ [c]) = 10 * Number s + (int (of_char c) - 48)"
  by (simp add: Number_def)

lemma Number_digits_of_nat: "Number (digits_of_nat n) = int n"
proof (induction n rule: digits_of_nat.induct)
  case (1 n)
  show ?case
  proof (cases "n < 10")
    case True
    then have "digits_of_nat n = [char_of (48 + n)]"
      by (simp add: digits_of_nat.simps)
    moreover have "(48 + n) mod 256 = 48 + n"
      using True by simp
    ultimately show ?thesis
      by (simp add: Number_def)
  next
    case False
    then have unfold: "digits_of_nat n = digits_of_nat (n div 10) @ [char_of (48 + n mod 10)]"
      by (subst digits_of_nat.simps) simp
    have "(48 + n mod 10) mod 256 = 48 + n mod 10"
      by (simp add: mod_less)
    then have last: "int (of_char (char_of (48 + n mod 10) :: char)) - 48 = int (n mod 10)"
      by simp
    have "Number (digits_of_nat n) = 10 * int (n div 10) + int (n mod 10)"
      unfolding unfold Number_snoc last using "1.IH" [OF False] by simp
    then show ?thesis
      by (simp add: of_nat_div of_nat_mod zmod_int)
  qed
qed

lemma Number_number_to_string: "0 \<le> i \<Longrightarrow> Number (number_to_string i) = i"
  by (simp add: number_to_string_def Number_digits_of_nat)

text \<open>
  C2: for the 1-based inclusive interval \<open>[start, end]\<close>, \<^verbatim>\<open>fetchGeneSequence\<close>
  issues one request, whose URL carries \<open>start - 1\<close> as its start and \<open>end\<close> as its
  end, written in decimal digits that read back as these two numbers; the function's
  result is made from the answer to this request. For \<open>[1000, 2000]\<close> the request is
  \<open>start=999;end=2000\<close>.
\<close>

theorem half_open_query:
  "fetchGeneSequence_requests fetch chrom start end' genomeId
     = [''https://api.genome.ucsc.edu/getData/sequence?genome='' @ genomeId
         @ '';chrom='' @ (if startsWith chrom ''chr'' then chrom else ''chr'' @ chrom)
         @ '';start='' @ number_to_string (start - 1)
         @ '';end='' @ number_to_string end']
   \<and> (1 \<le> start \<longrightarrow> Number (number_to_string (start - 1)) = start - 1)
   \<and> (0 \<le> end' \<longrightarrow> Number (number_to_string end') = end')
   \<and> fetchGeneSequence fetch chrom start end' genomeId
     = fetchGeneSequence
         (\<lambda>url. fetch (''https://api.genome.ucsc.edu/getData/sequence?genome='' @ genomeId
            @ '';chrom='' @ (if startsWith chrom ''chr'' then chrom else ''chr'' @ chrom)
            @ '';start='' @ number_to_string (start - 1)
            @ '';end='' @ number_to_string end'))
         chrom start end' genomeId
   \<and> fetchGeneSequence_requests fetch chrom 1000 2000 genomeId
     = [''https://api.genome.ucsc.edu/getData/sequence?genome='' @ genomeId
         @ '';chrom='' @ (if startsWith chrom ''chr'' then chrom else ''chr'' @ chrom)
         @ '';start=999;end=2000'']"
proof -
  have url: "sequence_query chrom s e genomeId
     = ''https://api.genome.ucsc.edu/getData/sequence?genome='' @ genomeId
         @ '';chrom='' @ (if startsWith chrom ''chr'' then chrom else ''chr'' @ chrom)
         @ '';start='' @ number_to_string (s - 1)
         @ '';end='' @ number_to_string e" for s e
    by (simp add: sequence_query_def apiUrl_def apiStart_def apiEnd_def chromosome_of_def)
  have a: "fetchGeneSequence_requests fetch chrom s e genomeId
             = [sequence_query chrom s e genomeId]" for s e
    by (simp add: fetchGeneSequence_requests_def fetchGeneSequence_run_requests)
  have b: "1 \<le> start \<longrightarrow> Number (number_to_string (start - 1)) = start - 1"
    by (simp add: Number_number_to_string)
  have c: "0 \<le> end' \<longrightarrow> Number (number_to_string end') = end'"
    by (simp add: Number_number_to_string)
  have d: "fetchGeneSequence fetch chrom start end' genomeId
     = fetchGeneSequence (\<lambda>url. fetch (sequence_query chrom start end' genomeId))
         chrom start end' genomeId"
    by (simp add: fetchGeneSequence_def fetchGeneSequence_run_def fetchGeneSequence_try_def
          issue_def)
  have n1: "number_to_string 999 = ''999''" by code_simp
  have n2: "number_to_string 2000 = ''2000''" by code_simp
  have e: "sequence_query chrom 1000 2000 genomeId
     = ''https://api.genome.ucsc.edu/getData/sequence?genome='' @ genomeId
         @ '';chrom='' @ (if startsWith chrom ''chr'' then chrom else ''chr'' @ chrom)
         @ '';start=999;end=2000''"
    by (simp add: url n1 n2)
  show ?thesis
    using a [of start end'] a [of 1000 2000] b c d e
    unfolding url [of start end'] by simp
qed

theorem half_open_query_witness:
  "fetchGeneSequence_requests (sequence_answer (Some ''acgt'') None) ''17'' 1000 2000 ''hg38''
     = [''https://api.genome.ucsc.edu/getData/sequence?genome=hg38;chrom=chr17;start=999;end=2000'']
   \<and> Number (number_to_string (1000 - 1)) = 1000 - 1
   \<and> Number (number_to_string 2000) = 2000"
proof -
  have n1: "number_to_string 999 = ''999''" by code_simp
  have n2: "number_to_string 2000 = ''2000''" by code_simp
  from half_open_query [of "sequence_answer (Some ''acgt'') None" "''17''" 1000 2000 "''hg38''"]
  show ?thesis
    by (simp add: n1 n2)
qed

text \<open>
  C10: \<^verbatim>\<open>fetchGeneSequence\<close> returns on every input and every answer of the service
  (no rejection), and the \<^verbatim>\<open>actualRange\<close> of its result is the requested
  \<open>{start, end}\<close>.
\<close>

theorem fetchGeneSequence_total:
  "\<exists>r. fetchGeneSequence fetch chrom start end' genomeId = Inr r
     \<and> actualRange r = \<lparr>range_start = start, range_end = end'\<rparr>"
  by (auto simp: fetchGeneSequence_def fetchGeneSequence_run_def fetchGeneSequence_try_def
        issue_def await_json_def Let_def
      split: fetched.splits json_body.splits option.splits sum.splits)

text \<open>
  C3, as stated, asks that a returned sequence whose length is not \<open>end - start + 1\<close>
  come back as an error. For the interval \<open>[1, 10]\<close> and a service that sends three
  bases, the three bases come back as a success.
\<close>

theorem short_sequence_returned_counterexample:
  "fetchGeneSequence (sequence_answer (Some ''acg'') None) ''chr1'' 1 10 ''hg38''
     = Inr \<lparr>sequence = ''ACG'', actualRange = \<lparr>range_start = 1, range_end = 10\<rparr>, error = None\<rparr>
   \<and> int (length ''ACG'') \<noteq> 10 - 1 + 1"
  by code_simp

text \<open>
  C3, amended: \<^verbatim>\<open>fetchGeneSequence\<close> does not compare the length of the returned
  sequence with \<open>end - start + 1\<close>. A missing or empty sequence field gives an empty
  result sequence; a non-empty sequence in an answer without service error comes back
  as a success without error, whatever the interval, and for an ASCII sequence the
  result is the sequence in upper case.
\<close>

theorem sequence_length_not_checked:
  assumes "fetch (sequence_query chrom start end' genomeId) = Resolves r"
    and "json r = JsonObject d"
  shows "\<exists>res. fetchGeneSequence fetch chrom start end' genomeId = Inr res
     \<and> (\<not> truthy (data_dna d) \<longrightarrow> sequence res = [])
     \<and> (\<forall>dna. \<not> truthy (data_error d) \<and> data_dna d = Some dna \<and> dna \<noteq> []
           \<longrightarrow> error res = None
               \<and> ((\<forall>c\<in>set dna. (of_char c :: nat) < 128)
                     \<longrightarrow> sequence res = toUpperCase dna))"
  using assms
  by (auto simp: fetchGeneSequence_def fetchGeneSequence_run_def fetchGeneSequence_try_def
        issue_def await_json_def Let_def truthy_def split: option.splits)

theorem sequence_length_not_checked_witness:
  "\<exists>res. fetchGeneSequence (sequence_answer (Some ''acg'') None) ''chr1'' 1 10 ''hg38'' = Inr res
     \<and> error res = None \<and> sequence res = toUpperCase ''acg''"
proof -
  let ?d = "\<lparr>data_dna = Some ''acg'', data_error = None\<rparr>"
  let ?r = "\<lparr>ok = True, statusText = ''OK'', json = JsonObject ?d\<rparr>"
  have h1: "sequence_answer (Some ''acg'') None (sequence_query ''chr1'' 1 10 ''hg38'') = Resolves ?r"
    by (simp add: sequence_answer_def)
  have h2: "json ?r = JsonObject ?d"
    by simp
  have ascii: "\<forall>c\<in>set ''acg''. (of_char c :: nat) < 128"
    by simp
  from sequence_length_not_checked [where fetch = "sequence_answer (Some ''acg'') None"
      and chrom = "''chr1''" and start = 1 and end' = 10 and genomeId = "''hg38''", OF h1 h2]
  show ?thesis
    using ascii by (simp add: truthy_def)
qed

text \<open>
  C4: on an answer that reports an error or lacks the sequence field the function
  should return an empty sequence with an explicit error string. On an answer with
  neither an error nor a sequence field the result has the empty sequence and no error
  string: the \<^verbatim>\<open>error\<close> of the result is the absent \<^verbatim>\<open>data.error\<close>.
\<close>

theorem missing_dna_without_error_string:
  "fetchGeneSequence (sequence_answer None None) ''chr17'' 1000 2000 ''hg38''
     = Inr \<lparr>sequence = [], actualRange = \<lparr>range_start = 1000, range_end = 2000\<rparr>, error = None\<rparr>"
  by (simp add: fetchGeneSequence_def fetchGeneSequence_run_def fetchGeneSequence_try_def
        issue_def await_json_def sequence_answer_def truthy_def)

section \<open>The result cache\<close>

text \<open>
  C7: after an entry has been stored at time \<open>T\<close>, a read at a time before
  \<open>T + 10 min\<close> returns the stored data and leaves the storage as it is; a read at
  \<open>T + 10 min\<close> or later returns null and removes the entry, so that a later read finds
  nothing.
\<close>

theorem cache_entry_ttl:
  "(now < T + 10 * 60 * 1000 \<longrightarrow>
      getCachedData (setCachedData True store T cacheKey data) now cacheKey
        = (Some data, setCachedData True store T cacheKey data))
   \<and> (T + 10 * 60 * 1000 \<le> now \<longrightarrow>
      getCachedData (setCachedData True store T cacheKey data) now cacheKey
        = (None, (setCachedData True store T cacheKey data)(cacheKey := None))
      \<and> fst (getCachedData (snd (getCachedData (setCachedData True store T cacheKey data)
                                    now cacheKey)) later cacheKey) = None)"
  by (auto simp: getCachedData_def setCachedData_def setItem_def isCacheValid_def
        CACHE_TIMEOUT_def removeItem_def)

theorem cache_entry_ttl_witness:
  "getCachedData (setCachedData True Map.empty 1000 ''gene-search-BRCA1-hg38'' [''BRCA1''])
       600999 ''gene-search-BRCA1-hg38''
     = (Some [''BRCA1''],
        setCachedData True Map.empty 1000 ''gene-search-BRCA1-hg38'' [''BRCA1''])
   \<and> getCachedData (setCachedData True Map.empty 1000 ''gene-search-BRCA1-hg38'' [''BRCA1''])
       601000 ''gene-search-BRCA1-hg38''
     = (None, (setCachedData True Map.empty 1000 ''gene-search-BRCA1-hg38'' [''BRCA1''])
                (''gene-search-BRCA1-hg38'' := None))"
  using cache_entry_ttl [of 600999 1000 Map.empty "''gene-search-BRCA1-hg38''" "[''BRCA1'']"]
    cache_entry_ttl [of 601000 1000 Map.empty "''gene-search-BRCA1-hg38''" "[''BRCA1'']"]
  by simp

section \<open>The chromosome list\<close>

lemma chrom_compare_display_order:
  "(chrom_compare lc a b \<le> 0) = display_order lc a b"
  by (simp add: chrom_compare_def display_order_def numeric_name_def Let_def)

lemma mset_insert_sorted: "mset (insert_sorted cmp x ys) = add_mset x (mset ys)"
  by (induction ys) auto

lemma mset_array_sort: "mset (array_sort cmp xs) = mset xs"
  unfolding array_sort_def by (induction xs) (auto simp: mset_insert_sorted)

lemma set_insert_sorted: "set (insert_sorted cmp x ys) = insert x (set ys)"
  by (induction ys) auto

lemma sorted_insert_sorted:
  assumes total: "\<And>a b. cmp a b \<le> 0 \<or> cmp b a \<le> 0"
    and trans: "\<And>a b c. cmp a b \<le> 0 \<Longrightarrow> cmp b c \<le> 0 \<Longrightarrow> cmp a c \<le> 0"
    and "sorted_wrt (\<lambda>a b. cmp a b \<le> 0) ys"
  shows "sorted_wrt (\<lambda>a b. cmp a b \<le> 0) (insert_sorted cmp x ys)"
  using assms(3)
proof (induction ys)
  case Nil
  then show ?case by simp
next
  case (Cons y ys)
  show ?case
  proof (cases "cmp x y \<le> 0")
    case True
    then have "\<forall>z\<in>set ys. cmp x z \<le> 0"
      using Cons.prems trans by auto
    with True Cons.prems show ?thesis by simp
  next
    case False
    then have "cmp y x \<le> 0" using total [of x y] by simp
    with False Cons show ?thesis by (auto simp: set_insert_sorted)
  qed
qed

lemma sorted_array_sort:
  assumes total: "\<And>a b. cmp a b \<le> 0 \<or> cmp b a \<le> 0"
    and trans: "\<And>a b c. cmp a b \<le> 0 \<Longrightarrow> cmp b c \<le> 0 \<Longrightarrow> cmp a c \<le> 0"
  shows "sorted_wrt (\<lambda>a b. cmp a b \<le> 0) (array_sort cmp xs)"
  unfolding array_sort_def
  by (induction xs) (auto intro: sorted_insert_sorted [OF total trans])

lemma display_order_total:
  assumes "\<forall>a b. lc a b \<le> 0 \<or> lc b a \<le> 0"
  shows "display_order lc a b \<or> display_order lc b a"
  using assms by (auto simp: display_order_def)

lemma display_order_trans:
  assumes "\<forall>a b c. lc a b \<le> 0 \<and> lc b c \<le> 0 \<longrightarrow> lc a c \<le> 0"
    and "display_order lc a b" and "display_order lc b c"
  shows "display_order lc a c"
  using assms(2,3) assms(1) [rule_format, of "replace_first (name a) ''chr'' []"
      "replace_first (name b) ''chr'' []" "replace_first (name c) ''chr'' []"]
  by (auto simp: display_order_def split: if_splits)

lemma collect_chromosomes_filter:
  "collect_chromosomes entries =
     map (\<lambda>(n, s). \<lparr>name = n, size_bases = s\<rparr>) (filter (\<lambda>(n, s). \<not> excluded_name n) entries)"
  by (induction entries rule: collect_chromosomes.induct) (auto simp: excluded_name_def)

text \<open>
  C8: when the service answers with a chromosome table and the collation is a total
  preorder, \<^verbatim>\<open>getGenomeChromosomes\<close> returns a list without any name that contains an
  underscore, \<^verbatim>\<open>random\<close> or \<^verbatim>\<open>Un\<close>; the list holds exactly the other chromosomes of
  the table, numerically named ones first by ascending number, then the others in the
  order of the collation.
\<close>

theorem chromosome_list_filtered_and_ordered:
  assumes "\<forall>a b. localeCompare a b \<le> 0 \<or> localeCompare b a \<le> 0"
    and "\<forall>a b c. localeCompare a b \<le> 0 \<and> localeCompare b c \<le> 0 \<longrightarrow> localeCompare a c \<le> 0"
    and "fetch (chromosomesUrl genomeId) = Resolves r" and "ok r"
    and "json r = JsonObject d" and "chromosomes d = Some entries"
  shows "\<exists>cs. getGenomeChromosomes fetch localeCompare genomeId = Inr cs
     \<and> (\<forall>c\<in>set cs. \<not> str_includes (name c) ''_'' \<and> \<not> str_includes (name c) ''random''
            \<and> \<not> str_includes (name c) ''Un'')
     \<and> mset cs = mset (map (\<lambda>(n, s). \<lparr>name = n, size_bases = s\<rparr>)
                        (filter (\<lambda>(n, s). \<not> excluded_name n) entries))
     \<and> sorted_wrt (display_order localeCompare) cs"
proof -
  let ?cmp = "chrom_compare localeCompare"
  let ?kept = "collect_chromosomes entries"
  let ?cs = "array_sort ?cmp ?kept"
  have ret: "getGenomeChromosomes fetch localeCompare genomeId = Inr ?cs"
    using assms(3-6) by (simp add: getGenomeChromosomes_def await_json_def)
  have perm: "mset ?cs = mset ?kept"
    by (rule mset_array_sort)
  have kept: "?kept = map (\<lambda>(n, s). \<lparr>name = n, size_bases = s\<rparr>)
                        (filter (\<lambda>(n, s). \<not> excluded_name n) entries)"
    by (rule collect_chromosomes_filter)
  have "set ?cs = set ?kept"
    using perm by (rule mset_eq_setD)
  then have excl: "\<forall>c\<in>set ?cs. \<not> excluded_name (name c)"
    by (auto simp: kept)
  have total: "\<And>a b. ?cmp a b \<le> 0 \<or> ?cmp b a \<le> 0"
    using display_order_total [OF assms(1)] by (simp add: chrom_compare_display_order)
  have trans: "\<And>a b c. ?cmp a b \<le> 0 \<Longrightarrow> ?cmp b c \<le> 0 \<Longrightarrow> ?cmp a c \<le> 0"
    using display_order_trans [OF assms(2)] by (simp add: chrom_compare_display_order)
  have "sorted_wrt (\<lambda>a b. ?cmp a b \<le> 0) ?cs"
    using total trans by (rule sorted_array_sort)
  then have ord: "sorted_wrt (display_order localeCompare) ?cs"
    by (simp add: chrom_compare_display_order)
  from ret excl perm kept ord show ?thesis
    by (simp add: excluded_name_def)
qed

theorem chromosome_list_filtered_and_ordered_witness:
  "\<exists>cs. getGenomeChromosomes sample_chromosomes codeunit_compare ''hg38'' = Inr cs
     \<and> (\<forall>c\<in>set cs. \<not> str_includes (name c) ''_'' \<and> \<not> str_includes (name c) ''random''
            \<and> \<not> str_includes (name c) ''Un'')
     \<and> mset cs = mset (map (\<lambda>(n, s). \<lparr>name = n, size_bases = s\<rparr>)
                        (filter (\<lambda>(n, s). \<not> excluded_name n)
           [(''chr10'', 133797422), (''chrX'', 156040895), (''chr2'', 242193529),
            (''chr1_KI270706v1_random'', 175055), (''chrUn_GL000195v1'', 182896),
            (''chrM'', 16569), (''chr1'', 248956422)]))
     \<and> sorted_wrt (display_order codeunit_compare) cs"
proof -
  let ?entries = "[(''chr10'', 133797422), (''chrX'', 156040895), (''chr2'', 242193529),
            (''chr1_KI270706v1_random'', 175055), (''chrUn_GL000195v1'', 182896),
            (''chrM'', 16569), (''chr1'', 248956422 :: int)]"
  let ?d = "\<lparr>chromosomes = Some ?entries\<rparr>"
  let ?r = "\<lparr>ok = True, statusText = ''OK'', json = JsonObject ?d\<rparr>"
  have h1: "\<forall>a b. codeunit_compare a b \<le> 0 \<or> codeunit_compare b a \<le> 0"
    by (auto simp: codeunit_compare_def)
  have h2: "\<forall>a b c. codeunit_compare a b \<le> 0 \<and> codeunit_compare b c \<le> 0
              \<longrightarrow> codeunit_compare a c \<le> 0"
    by (auto simp: codeunit_compare_def split: if_splits)
  have h3: "sample_chromosomes (chromosomesUrl ''hg38'') = Resolves ?r"
    by (simp add: sample_chromosomes_def)
  have h4: "ok ?r" and h5: "json ?r = JsonObject ?d" and h6: "chromosomes ?d = Some ?entries"
    by simp_all
  from chromosome_list_filtered_and_ordered [where fetch = sample_chromosomes
      and genomeId = "''hg38''", OF h1 h2 h3 h4 h5 h6]
  show ?thesis .
qed

lemma chromosome_list_example:
  "getGenomeChromosomes sample_chromosomes codeunit_compare ''hg38'' =
     Inr [\<lparr>name = ''chr1'', size_bases = 248956422\<rparr>, \<lparr>name = ''chr2'', size_bases = 242193529\<rparr>,
          \<lparr>name = ''chr10'', size_bases = 133797422\<rparr>, \<lparr>name = ''chrM'', size_bases = 16569\<rparr>,
          \<lparr>name = ''chrX'', size_bases = 156040895\<rparr>]"
  by code_simp

end
